theory Spec2Isabelle
  imports Main
begin

section \<open>Multiaddresses and the dial matcher\<close>

text \<open>
  A multiaddress (\<^verbatim>\<open>ma.Multiaddr\<close>) is a sequence of components, each a protocol code with
  its textual value; \<^verbatim>\<open>addr.Protocols()\<close> is the sequence of the codes. The codes are the
  constants of go-multiaddr that \<^verbatim>\<open>transport.go\<close> names.
\<close>

type_synonym multiaddr = "(int \<times> string) list"

definition P_IP4 :: int where "P_IP4 = 4"
definition P_TCP :: int where "P_TCP = 6"
definition P_GARLIC64 :: int where "P_GARLIC64 = 446"
definition P_GARLIC32 :: int where "P_GARLIC32 = 447"

definition ma_Protocols :: "multiaddr \<Rightarrow> int list" where
  "ma_Protocols a = map fst a"

text \<open>
  The patterns of go-multiaddr-fmt that \<^verbatim>\<open>dialMatcher\<close> is built from. \<^verbatim>\<open>Base(c)\<close> consumes
  one leading protocol of code \<^verbatim>\<open>c\<close>; \<^verbatim>\<open>Or(ps...)\<close> takes the first alternative that
  matches; a pattern matches an address when it consumes all of its protocols.
\<close>

datatype pattern = Base int | Or "pattern list"

fun partialMatch :: "pattern \<Rightarrow> int list \<Rightarrow> bool \<times> int list"
  and partialMatchOr :: "pattern list \<Rightarrow> int list \<Rightarrow> bool \<times> int list" where
  "partialMatch (Base p) pcs =
     (case pcs of [] \<Rightarrow> (False, [])
      | c # rest \<Rightarrow> if c = p then (True, rest) else (False, []))"
| "partialMatch (Or args) pcs = partialMatchOr args pcs"
| "partialMatchOr [] pcs = (False, [])"
| "partialMatchOr (a # args) pcs =
     (case partialMatch a pcs of
        (True, rem) \<Rightarrow> (True, rem)
      | (False, _) \<Rightarrow> partialMatchOr args pcs)"

definition Matches :: "pattern \<Rightarrow> multiaddr \<Rightarrow> bool" where
  "Matches ptrn a = (case partialMatch ptrn (ma_Protocols a) of (ok, rem) \<Rightarrow> ok \<and> length rem = 0)"

text \<open>\<^verbatim>\<open>transport.go\<close>, lines 90 to 93.\<close>

definition dialMatcher :: pattern where
  "dialMatcher = Or [Base P_GARLIC64, Base P_GARLIC32]"


section \<open>Errors, contexts and the collaborators' objects\<close>

text \<open>
  Go errors: an error reported by a collaborator (\<open>Cause\<close>), the error of a done context,
  \<^verbatim>\<open>errorx.Decorate(err, msg)\<close> and \<^verbatim>\<open>fmt.Errorf(msg)\<close>.
\<close>

datatype ctx_err = Canceled | DeadlineExceeded

datatype error = Cause string | CtxErr ctx_err | Decorate error string | Errorf string

text \<open>
  \<^verbatim>\<open>Dial\<close> reads \<^verbatim>\<open>ctx.Err()\<close> at four moments: before the raw dial (line 112), when the raw
  dial has returned (lines 120 and 127), before the upgrade (line 158) and when the upgrade
  has returned an error (line 183). The caller may cancel the context at any time, so a
  context is what \<^verbatim>\<open>ctx.Err()\<close> answers at each of these moments (\<open>None\<close> is \<^verbatim>\<open>nil\<close>).
\<close>

datatype checkpoint = PreDial | PostDial | PreUpgrade | PostUpgrade

type_synonym "context" = "checkpoint \<Rightarrow> ctx_err option"


text \<open>
  The objects handed around: the raw connection of the session provider, the wrapper that
  \<^verbatim>\<open>NewConnection\<close> builds around it with the local and the remote address, a connection scope
  of the resource manager, an upgraded connection, the raw listener and its wrapper.
\<close>

datatype SAMConn = SAMConn nat
datatype Connection = Connection SAMConn multiaddr multiaddr
datatype ConnScope = ConnScope nat
datatype CapableConn = CapableConn nat
datatype StreamListener = StreamListener nat
datatype TransportListener = TransportListener StreamListener
datatype Listener = Listener nat
datatype I2PKeys = I2PKeys string string
datatype sam_options = Options_Default
datatype direction = DirUnknown | DirInbound | DirOutbound

type_synonym peer_ID = string

text \<open>
  The collaborators are interfaces; each is a record of what its methods answer. A stream
  session carries the name it was created under. \<^verbatim>\<open>Upgrade\<close> and \<^verbatim>\<open>UpgradeListener\<close> also
  receive the transport itself, which is always the receiver \<^verbatim>\<open>i2p\<close> and is left out.
\<close>

record stream_session =
  session_ID :: string
  DialI2P :: "string \<Rightarrow> error + SAMConn option"
  LocalAddr :: string
  session_Listen :: "error + StreamListener"

record primary_session =
  NewStreamSubSession :: "string \<Rightarrow> error + stream_session"
  NewStreamSubSessionWithPorts :: "string \<Rightarrow> string \<Rightarrow> string \<Rightarrow> error + stream_session"
  Addr :: string

record SAM =
  NewPrimarySession :: "string \<Rightarrow> I2PKeys \<Rightarrow> sam_options \<Rightarrow> error + primary_session"

record upgrader =
  Upgrade :: "context \<Rightarrow> Connection \<Rightarrow> direction \<Rightarrow> peer_ID \<Rightarrow> ConnScope option
                \<Rightarrow> error + CapableConn option"
  UpgradeListener :: "TransportListener \<Rightarrow> Listener option"

record resource_manager =
  OpenConnection :: "direction \<Rightarrow> bool \<Rightarrow> multiaddr \<Rightarrow> error + ConnScope option"

text \<open>\<^verbatim>\<open>transport.go\<close>, lines 19 to 33.\<close>

record I2PTransport =
  Upgrader :: "upgrader option"
  ResourceManager :: "resource_manager option"
  sam :: SAM
  i2PKeys :: I2PKeys
  primarySession :: primary_session
  outboundSession :: stream_session
  inboundSession :: stream_session

text \<open>
  What \<^verbatim>\<open>transport.go\<close> calls without defining it: the two address translators and the
  failure conditions of the two wrappers (their files are not among the sources), and the
  number that \<^verbatim>\<open>rand.Int()\<close> yields right after \<^verbatim>\<open>rand.Seed(seed)\<close>. They are parameters
  of the model.
\<close>

record package_fns =
  I2PAddrToMultiAddr :: "string \<Rightarrow> error + multiaddr"
  MultiAddrToI2PAddr :: "multiaddr \<Rightarrow> error + string"
  NewConnection_error :: "SAMConn \<Rightarrow> multiaddr \<Rightarrow> multiaddr \<Rightarrow> error option"
  NewTransportListener_error :: "StreamListener \<Rightarrow> error option"
  rand_Int_seeded :: "int \<Rightarrow> int"

text \<open>
  Modelled from the spec: \<^verbatim>\<open>NewConnection\<close>, whose file is not among the sources. Section 4.3:
  it wraps the raw connection with the two addresses, performs no I/O, and fails only when
  the adapter cannot be constructed.
\<close>

definition NewConnection ::
    "package_fns \<Rightarrow> SAMConn \<Rightarrow> multiaddr \<Rightarrow> multiaddr \<Rightarrow> error + Connection" where
  "NewConnection fns conn localAddress remoteAddress =
     (case NewConnection_error fns conn localAddress remoteAddress of
        Some err \<Rightarrow> Inl err
      | None \<Rightarrow> Inr (Connection conn localAddress remoteAddress))"

text \<open>
  Modelled from the spec: \<^verbatim>\<open>NewTransportListener\<close>, whose file is not among the sources.
  Section 4.3: it wraps the raw listener, performs no I/O, and fails only when the adapter
  cannot be constructed.
\<close>

definition NewTransportListener ::
    "package_fns \<Rightarrow> StreamListener \<Rightarrow> error + TransportListener" where
  "NewTransportListener fns streamListener =
     (case NewTransportListener_error fns streamListener of
        Some err \<Rightarrow> Inl err
      | None \<Rightarrow> Inr (TransportListener streamListener))"

section \<open>Effects and outcomes\<close>

text \<open>
  Every call that \<^verbatim>\<open>Dial\<close> and \<^verbatim>\<open>Listen\<close> make on a collaborator is recorded, in order. A
  method returns a pair of a value and an error, either of which may be \<^verbatim>\<open>nil\<close>, or it
  panics.
\<close>

datatype event =
    EvCtxErr checkpoint "ctx_err option"
  | EvDialI2P string string
  | EvConnClose SAMConn
  | EvWrappedClose Connection
  | EvOpenConnection direction bool multiaddr
  | EvScopeDone ConnScope
  | EvUpgrade Connection direction peer_ID "ConnScope option"
  | EvSessionListen string
  | EvListenerClose StreamListener
  | EvUpgradeListener TransportListener

datatype 'a outcome = Returned "'a option" "error option" | Panicked

definition emit :: "event list \<Rightarrow> 'a \<times> event list \<Rightarrow> 'a \<times> event list" where
  "emit evs r = (fst r, evs @ snd r)"

text \<open>Closing the wrapper closes the raw connection it wraps.\<close>

fun closes :: "SAMConn \<Rightarrow> event \<Rightarrow> bool" where
  "closes c (EvConnClose c') = (c = c')"
| "closes c (EvWrappedClose (Connection c' l r)) = (c = c')"
| "closes c _ = False"

definition close_count :: "SAMConn \<Rightarrow> event list \<Rightarrow> nat" where
  "close_count c evs = length (filter (closes c) evs)"

definition done_count :: "ConnScope \<Rightarrow> event list \<Rightarrow> nat" where
  "done_count s evs = length (filter (\<lambda>e. e = EvScopeDone s) evs)"

definition listener_close_count :: "StreamListener \<Rightarrow> event list \<Rightarrow> nat" where
  "listener_close_count l evs = length (filter (\<lambda>e. e = EvListenerClose l) evs)"

section \<open>The transport\<close>

text \<open>\<^verbatim>\<open>CanDial\<close>, lines 95 to 98.\<close>

definition CanDial :: "I2PTransport \<Rightarrow> multiaddr \<Rightarrow> bool" where
  "CanDial i2p addr = Matches dialMatcher addr"

text \<open>\<^verbatim>\<open>Protocols\<close>, lines 221 to 224.\<close>

definition Protocols :: "I2PTransport \<Rightarrow> int list" where
  "Protocols i2p = [P_GARLIC64, P_GARLIC32, P_TCP]"

text \<open>
  \<^verbatim>\<open>Dial\<close>, lines 178 to 197: the upgrade. \<open>deferred\<close> says whether the function deferred at
  line 171 is registered; it runs at the return, calls \<^verbatim>\<open>connScope.Done()\<close> when \<^verbatim>\<open>err\<close> is
  not nil, and that call panics on a nil scope.
\<close>

definition Dial_upgrade ::
    "upgrader \<Rightarrow> context \<Rightarrow> peer_ID \<Rightarrow> Connection \<Rightarrow> ConnScope option \<Rightarrow> bool
       \<Rightarrow> CapableConn outcome \<times> event list" where
  "Dial_upgrade up ctx peerID outboundConnection connScope deferred =
     emit [EvUpgrade outboundConnection DirOutbound peerID connScope]
       (case Upgrade up ctx outboundConnection DirOutbound peerID connScope of
          Inl err \<Rightarrow>
            emit [EvWrappedClose outboundConnection, EvCtxErr PostUpgrade (ctx PostUpgrade)]
              (let e = (case ctx PostUpgrade of
                          Some ce \<Rightarrow> Decorate (CtxErr ce) ''connection upgrade cancelled or timed out''
                        | None \<Rightarrow> Decorate err ''failed to upgrade connection'')
               in if deferred
                  then (case connScope of
                          Some s \<Rightarrow> (Returned None (Some e), [EvScopeDone s])
                        | None \<Rightarrow> (Panicked, []))
                  else (Returned None (Some e), []))
        | Inr None \<Rightarrow>
            (Returned None (Some (Errorf ''upgrader returned nil connection without error'')),
             (case connScope of Some s \<Rightarrow> [EvScopeDone s] | None \<Rightarrow> []))
        | Inr (Some upgradedConn) \<Rightarrow> (Returned (Some upgradedConn) None, []))"

text \<open>\<^verbatim>\<open>Dial\<close>, lines 163 to 176: the connection scope.\<close>

definition Dial_scope ::
    "I2PTransport \<Rightarrow> upgrader \<Rightarrow> context \<Rightarrow> multiaddr \<Rightarrow> peer_ID \<Rightarrow> Connection
       \<Rightarrow> CapableConn outcome \<times> event list" where
  "Dial_scope i2p up ctx remoteAddress peerID outboundConnection =
     (case ResourceManager i2p of
        None \<Rightarrow> Dial_upgrade up ctx peerID outboundConnection None False
      | Some rm \<Rightarrow>
          emit [EvOpenConnection DirOutbound False remoteAddress]
            (case OpenConnection rm DirOutbound False remoteAddress of
               Inl err \<Rightarrow>
                 (Returned None (Some (Decorate err ''failed to open connection scope'')),
                  [EvWrappedClose outboundConnection])
             | Inr connScope \<Rightarrow> Dial_upgrade up ctx peerID outboundConnection connScope True))"

text \<open>\<^verbatim>\<open>Dial\<close>, lines 126 to 161: from the return of the raw dial to the upgrade.\<close>

definition Dial_connected ::
    "package_fns \<Rightarrow> I2PTransport \<Rightarrow> context \<Rightarrow> multiaddr \<Rightarrow> peer_ID \<Rightarrow> SAMConn option
       \<Rightarrow> CapableConn outcome \<times> event list" where
  "Dial_connected fns i2p ctx remoteAddress peerID conn =
     emit [EvCtxErr PostDial (ctx PostDial)]
       (case ctx PostDial of
          Some ce \<Rightarrow>
            (Returned None (Some (Decorate (CtxErr ce) ''context cancelled after dial'')),
             (case conn of Some c \<Rightarrow> [EvConnClose c] | None \<Rightarrow> []))
        | None \<Rightarrow>
          (case conn of
             None \<Rightarrow>
               (Returned None (Some (Errorf ''DialI2P returned nil connection without error'')), [])
           | Some c \<Rightarrow>
             (case I2PAddrToMultiAddr fns (LocalAddr (outboundSession i2p)) of
                Inl err \<Rightarrow>
                  (Returned None
                     (Some (Decorate err ''unable to construct multi-addr from local address'')),
                   [EvConnClose c])
              | Inr localAddress \<Rightarrow>
                (case NewConnection fns c localAddress remoteAddress of
                   Inl err \<Rightarrow>
                     (Returned None (Some (Decorate err ''failed to construct Connection wrapper'')),
                      [EvConnClose c])
                 | Inr outboundConnection \<Rightarrow>
                   (case Upgrader i2p of
                      None \<Rightarrow>
                        (Returned None (Some (Errorf ''transport upgrader is nil'')),
                         [EvWrappedClose outboundConnection])
                    | Some up \<Rightarrow>
                        emit [EvCtxErr PreUpgrade (ctx PreUpgrade)]
                          (case ctx PreUpgrade of
                             Some ce \<Rightarrow>
                               (Returned None
                                  (Some (Decorate (CtxErr ce) ''context cancelled before upgrade'')),
                                [EvWrappedClose outboundConnection])
                           | None \<Rightarrow>
                               Dial_scope i2p up ctx remoteAddress peerID outboundConnection))))))"

text \<open>\<^verbatim>\<open>Dial\<close>, lines 100 to 124, and the rest through the definitions above.\<close>

definition Dial ::
    "package_fns \<Rightarrow> I2PTransport \<Rightarrow> context \<Rightarrow> multiaddr \<Rightarrow> peer_ID
       \<Rightarrow> CapableConn outcome \<times> event list" where
  "Dial fns i2p ctx remoteAddress peerID =
     (if \<not> CanDial i2p remoteAddress
      then (Returned None (Some (Errorf ''can't dial: not a valid I2P address'')), [])
      else
        (case MultiAddrToI2PAddr fns remoteAddress of
           Inl err \<Rightarrow>
             (Returned None (Some (Decorate err ''failed to convert multiaddr to I2P address'')), [])
         | Inr remoteNetAddr \<Rightarrow>
             emit [EvCtxErr PreDial (ctx PreDial)]
               (case ctx PreDial of
                  Some ce \<Rightarrow>
                    (Returned None
                       (Some (Decorate (CtxErr ce) ''context cancelled before dial attempt'')), [])
                | None \<Rightarrow>
                    emit [EvDialI2P (session_ID (outboundSession i2p)) remoteNetAddr]
                      (case DialI2P (outboundSession i2p) remoteNetAddr of
                         Inl err \<Rightarrow>
                           emit [EvCtxErr PostDial (ctx PostDial)]
                             (case ctx PostDial of
                                Some ce \<Rightarrow>
                                  (Returned None
                                     (Some (Decorate (CtxErr ce) ''dial cancelled or timed out'')), [])
                              | None \<Rightarrow>
                                  (Returned None
                                     (Some (Decorate err
                                        (''failed to dial I2P address '' @ remoteNetAddr @
                                         '' (this may indicate I2P tunnels are not established)''))),
                                   []))
                       | Inr conn \<Rightarrow> Dial_connected fns i2p ctx remoteAddress peerID conn))))"

text \<open>
  \<^verbatim>\<open>Listen\<close>, lines 202 to 214. The argument is not named in the source. Line 213 calls a
  method of \<^verbatim>\<open>i2p.Upgrader\<close> without a nil check, which panics on a nil upgrader.
\<close>

definition Listen ::
    "package_fns \<Rightarrow> I2PTransport \<Rightarrow> multiaddr \<Rightarrow> Listener outcome \<times> event list" where
  "Listen fns i2p unused =
     emit [EvSessionListen (session_ID (inboundSession i2p))]
       (case session_Listen (inboundSession i2p) of
          Inl err \<Rightarrow>
            (Returned None (Some (Decorate err ''Unable to call listen on SAM session'')), [])
        | Inr streamListener \<Rightarrow>
          (case NewTransportListener fns streamListener of
             Inl err \<Rightarrow>
               (Returned None (Some (Decorate err ''Failed to initialize transport listener'')), [])
           | Inr listener \<Rightarrow>
             (case Upgrader i2p of
                None \<Rightarrow> (Panicked, [])
              | Some up \<Rightarrow>
                  (Returned (UpgradeListener up listener) None, [EvUpgradeListener listener]))))"


section \<open>Construction of the transport\<close>

text \<open>\<^verbatim>\<open>strconv.Itoa\<close>: the decimal digits of an integer, with a minus sign when negative.\<close>

function utoa :: "nat \<Rightarrow> string" where
  "utoa n = (if n < 10 then [''0123456789'' ! n] else utoa (n div 10) @ [''0123456789'' ! (n mod 10)])"
  by pat_completeness auto
termination
  by (relation "measure id") auto

definition Itoa :: "int \<Rightarrow> string" where
  "Itoa i = (if i < 0 then CHR ''-'' # utoa (nat (- i)) else utoa (nat i))"

text \<open>The calls made on the session provider, in order, with their arguments.\<close>

datatype sam_call =
    CallNewPrimarySession string I2PKeys sam_options
  | CallNewStreamSubSession string
  | CallNewStreamSubSessionWithPorts string string string

text \<open>
  The protocol and port a sub-session is bound to, as the comments at lines 55 to 64 give
  them: a stream sub-session created without ports is on the default port 0, one created
  with ports is on its from-port.
\<close>

definition default_port :: string where
  "default_port = ''0''"

fun subsession_binding :: "sam_call \<Rightarrow> (string \<times> string) option" where
  "subsession_binding (CallNewPrimarySession n k opts) = None"
| "subsession_binding (CallNewStreamSubSession n) = Some (''STREAM'', default_port)"
| "subsession_binding (CallNewStreamSubSessionWithPorts n from to) = Some (''STREAM'', from)"

type_synonym TransportBuilderFunc =
  "upgrader option \<Rightarrow> resource_manager option \<Rightarrow> I2PTransport option \<times> error option"

text \<open>\<^verbatim>\<open>I2PTransportBuilder\<close>, lines 44 to 88.\<close>

definition I2PTransportBuilder ::
    "package_fns \<Rightarrow> SAM \<Rightarrow> I2PKeys \<Rightarrow> string \<Rightarrow> int
       \<Rightarrow> (TransportBuilderFunc option \<times> multiaddr option \<times> error option) \<times> sam_call list" where
  "I2PTransportBuilder fns samClient i2pKeys outboundPort rngSeed =
     (let randSessionSuffix = Itoa (rand_Int_seeded fns rngSeed);
          call1 = CallNewPrimarySession (''primarySession-'' @ randSessionSuffix) i2pKeys Options_Default;
          call2 = CallNewStreamSubSession (''inboundSession-'' @ randSessionSuffix);
          call3 = CallNewStreamSubSessionWithPorts (''outboundSession-'' @ randSessionSuffix) ''1'' ''0''
      in
      case NewPrimarySession samClient (''primarySession-'' @ randSessionSuffix) i2pKeys Options_Default of
        Inl err \<Rightarrow>
          ((None, None, Some (Decorate err ''Failed to create Primary session with I2P SAM'')),
           [call1])
      | Inr samPrimarySession \<Rightarrow>
        (case NewStreamSubSession samPrimarySession (''inboundSession-'' @ randSessionSuffix) of
           Inl err \<Rightarrow>
             ((None, None,
               Some (Decorate err ''Failed to create inboundSession subsession with I2P SAM'')),
              [call1, call2])
         | Inr inbound \<Rightarrow>
           (case NewStreamSubSessionWithPorts samPrimarySession
                   (''outboundSession-'' @ randSessionSuffix) ''1'' ''0'' of
              Inl err \<Rightarrow>
                ((None, None,
                  Some (Decorate err ''Failed to create outbound subsession with I2P SAM'')),
                 [call1, call2, call3])
            | Inr outbound \<Rightarrow>
              (case I2PAddrToMultiAddr fns (Addr samPrimarySession) of
                 Inl err \<Rightarrow> ((None, None, Some err), [call1, call2, call3])
               | Inr i2pDestination \<Rightarrow>
                 ((Some (\<lambda>upg rcmgr.
                           (Some \<lparr>Upgrader = upg, ResourceManager = rcmgr, sam = samClient,
                                  i2PKeys = i2pKeys, primarySession = samPrimarySession,
                                  outboundSession = outbound, inboundSession = inbound\<rparr>,
                            None)),
                   Some i2pDestination, None),
                  [call1, call2, call3])))))"

section \<open>The address translator\<close>

text \<open>
  Modelled from the spec: the address translator (\<^verbatim>\<open>I2PAddrToMultiAddr\<close> and
  \<^verbatim>\<open>MultiAddrToI2PAddr\<close>), whose file is not among the sources. Sections 3 and 4.1: a full-form
  destination is a long string over a fixed alphabet; a generic address is a protocol tag
  with the textual destination as payload; the system advertises the full form;
  \<open>toGenericAddress\<close> rejects a string that is not a valid destination with
  \<open>MalformedAddress\<close>; \<open>toDestinationString\<close> accepts exactly the two overlay tags and
  rejects every other address with \<open>UnsupportedAddressFamily\<close>. The alphabet and the least
  length are parameters.
\<close>

datatype translate_error = MalformedAddress | UnsupportedAddressFamily

definition valid_destination :: "char list \<Rightarrow> nat \<Rightarrow> string \<Rightarrow> bool" where
  "valid_destination alphabet min_len d = (min_len \<le> length d \<and> list_all (\<lambda>c. c \<in> set alphabet) d)"

definition toGenericAddress :: "char list \<Rightarrow> nat \<Rightarrow> string \<Rightarrow> translate_error + multiaddr" where
  "toGenericAddress alphabet min_len d =
     (if valid_destination alphabet min_len d then Inr [(P_GARLIC64, d)] else Inl MalformedAddress)"

definition toDestinationString :: "multiaddr \<Rightarrow> translate_error + string" where
  "toDestinationString a =
     (case a of
        [(tag, payload)] \<Rightarrow>
          if tag = P_GARLIC64 \<or> tag = P_GARLIC32 then Inr payload else Inl UnsupportedAddressFamily
      | _ \<Rightarrow> Inl UnsupportedAddressFamily)"


section \<open>Reading results, and test doubles\<close>

text \<open>An error is a cancellation when the error it decorates is the error of the context.\<close>

fun is_cancellation :: "error \<Rightarrow> bool" where
  "is_cancellation (CtxErr ce) = True"
| "is_cancellation (Decorate e msg) = is_cancellation e"
| "is_cancellation (Cause msg) = False"
| "is_cancellation (Errorf msg) = False"

text \<open>
  Test doubles for the collaborators, each answering every call with a canned result: a
  session, an upgrader, a resource manager, a session provider, the package's own functions,
  and a context cancelled from a given moment on.
\<close>

definition fake_session ::
    "string \<Rightarrow> string \<Rightarrow> error + SAMConn option \<Rightarrow> error + StreamListener \<Rightarrow> stream_session" where
  "fake_session name localDest dialed listened =
     \<lparr>session_ID = name, DialI2P = (\<lambda>dest. dialed), LocalAddr = localDest,
      session_Listen = listened\<rparr>"

definition fake_upgrader :: "error + CapableConn option \<Rightarrow> upgrader" where
  "fake_upgrader upgraded =
     \<lparr>Upgrade = (\<lambda>ctx c dir p scope. upgraded), UpgradeListener = (\<lambda>l. Some (Listener 51))\<rparr>"

definition fake_rcmgr :: "error + ConnScope option \<Rightarrow> resource_manager" where
  "fake_rcmgr opened = \<lparr>OpenConnection = (\<lambda>dir privileged a. opened)\<rparr>"

definition fake_primary :: primary_session where
  "fake_primary =
     \<lparr>NewStreamSubSession =
        (\<lambda>name. Inr (fake_session name ''localdest'' (Inr (Some (SAMConn 11))) (Inr (StreamListener 21)))),
      NewStreamSubSessionWithPorts =
        (\<lambda>name from to.
           Inr (fake_session name ''localdest'' (Inr (Some (SAMConn 11))) (Inr (StreamListener 21)))),
      Addr = ''localdest''\<rparr>"

definition fake_sam :: SAM where
  "fake_sam = \<lparr>NewPrimarySession = (\<lambda>name keys opts. Inr fake_primary)\<rparr>"

definition fake_fns :: "error option \<Rightarrow> package_fns" where
  "fake_fns wrapError =
     \<lparr>I2PAddrToMultiAddr =
        (\<lambda>d. if d = [] then Inl (Cause ''malformed address'') else Inr [(P_GARLIC64, d)]),
      MultiAddrToI2PAddr =
        (\<lambda>a. case a of [(tag, v)] \<Rightarrow> Inr v | _ \<Rightarrow> Inl (Cause ''unsupported address'')),
      NewConnection_error = (\<lambda>c l r. wrapError),
      NewTransportListener_error = (\<lambda>l. wrapError),
      rand_Int_seeded = (\<lambda>seed. 7)\<rparr>"

definition fake_transport ::
    "string \<Rightarrow> upgrader option \<Rightarrow> resource_manager option \<Rightarrow> I2PTransport" where
  "fake_transport localDest upg rcmgr =
     \<lparr>Upgrader = upg, ResourceManager = rcmgr, sam = fake_sam, i2PKeys = I2PKeys ''pub'' ''priv'',
      primarySession = fake_primary,
      outboundSession =
        fake_session ''out'' localDest (Inr (Some (SAMConn 11))) (Inl (Cause ''not a listener'')),
      inboundSession =
        fake_session ''in'' localDest (Inl (Cause ''not a dialer'')) (Inr (StreamListener 21))\<rparr>"

definition remote :: multiaddr where
  "remote = [(P_GARLIC64, ''remotedest'')]"

fun moment :: "checkpoint \<Rightarrow> nat" where
  "moment PreDial = 0"
| "moment PostDial = 1"
| "moment PreUpgrade = 2"
| "moment PostUpgrade = 3"

definition live :: "context" where
  "live = (\<lambda>cp. None)"

definition cancelled_from :: "checkpoint \<Rightarrow> context" where
  "cancelled_from start = (\<lambda>cp. if moment start \<le> moment cp then Some Canceled else None)"


section \<open>Unfolding rules and evaluations shared by the proofs\<close>

lemmas Dial_defs = Dial_def Dial_connected_def Dial_scope_def Dial_upgrade_def emit_def
  NewConnection_def

lemmas fake_defs = fake_session_def fake_upgrader_def fake_rcmgr_def fake_primary_def
  fake_sam_def fake_fns_def fake_transport_def remote_def live_def cancelled_from_def

lemma partialMatch_dialMatcher:
  "partialMatch dialMatcher pcs =
     (case pcs of [] \<Rightarrow> (False, [])
      | c # rest \<Rightarrow> if c = P_GARLIC64 \<or> c = P_GARLIC32 then (True, rest) else (False, []))"
  by (simp add: dialMatcher_def split: list.splits)

lemma CanDial_protocols:
  "CanDial i2p addr \<longleftrightarrow> ma_Protocols addr = [P_GARLIC64] \<or> ma_Protocols addr = [P_GARLIC32]"
  by (auto simp: CanDial_def Matches_def partialMatch_dialMatcher split: list.splits)

lemma CanDial_garlic64: "CanDial i2p [(P_GARLIC64, v)]"
  by (simp add: CanDial_protocols ma_Protocols_def)

lemma accepted_tags_eq:
  "{t. \<exists>addr. CanDial i2p addr \<and> t \<in> set (ma_Protocols addr)} = {P_GARLIC64, P_GARLIC32}"
proof (rule set_eqI, rule iffI)
  fix t assume "t \<in> {t. \<exists>addr. CanDial i2p addr \<and> t \<in> set (ma_Protocols addr)}"
  then show "t \<in> {P_GARLIC64, P_GARLIC32}"
    by (auto simp: CanDial_protocols)
next
  fix t assume "t \<in> {P_GARLIC64, P_GARLIC32}"
  then consider "t = P_GARLIC64" | "t = P_GARLIC32" by auto
  then show "t \<in> {t. \<exists>addr. CanDial i2p addr \<and> t \<in> set (ma_Protocols addr)}"
  proof cases
    case 1
    have "CanDial i2p [(P_GARLIC64, [])]" by (simp add: CanDial_protocols ma_Protocols_def)
    with 1 show ?thesis
      by (auto simp: ma_Protocols_def intro!: exI[of _ "[(P_GARLIC64, [])]"])
  next
    case 2
    have "CanDial i2p [(P_GARLIC32, [])]" by (simp add: CanDial_protocols ma_Protocols_def)
    with 2 show ?thesis
      by (auto simp: ma_Protocols_def intro!: exI[of _ "[(P_GARLIC32, [])]"])
  qed
qed

lemma utoa_7: "utoa 7 = ''7''"
  by (simp add: utoa.simps)

text \<open>The builder run against the fake session provider, for any outbound port.\<close>

lemma builder_eval:
  "I2PTransportBuilder (fake_fns None) fake_sam (I2PKeys ''pub'' ''priv'') port 2345 =
     ((Some (\<lambda>upg rcmgr.
          (Some \<lparr>Upgrader = upg, ResourceManager = rcmgr, sam = fake_sam,
                 i2PKeys = I2PKeys ''pub'' ''priv'', primarySession = fake_primary,
                 outboundSession = fake_session ''outboundSession-7'' ''localdest''
                    (Inr (Some (SAMConn 11))) (Inr (StreamListener 21)),
                 inboundSession = fake_session ''inboundSession-7'' ''localdest''
                    (Inr (Some (SAMConn 11))) (Inr (StreamListener 21))\<rparr>, None)),
       Some [(P_GARLIC64, ''localdest'')], None),
      [CallNewPrimarySession ''primarySession-7'' (I2PKeys ''pub'' ''priv'') Options_Default,
       CallNewStreamSubSession ''inboundSession-7'',
       CallNewStreamSubSessionWithPorts ''outboundSession-7'' ''1'' ''0''])"
  by (simp add: I2PTransportBuilder_def Let_def fake_fns_def fake_sam_def fake_primary_def
        Itoa_def utoa_7)

section \<open>Dial and cancellation\<close>




text \<open>
  Claim C8: for a remote address that \<^verbatim>\<open>CanDial\<close> accepts and the translator converts, a
  context that is already cancelled at the check before the dial makes \<^verbatim>\<open>Dial\<close> return the
  error of the context, decorated, a cancellation; the only effect is the reading of the
  context, so the raw dial of the outbound session is never invoked.
\<close>

theorem Dial_cancelled_before_dial:
  assumes "CanDial i2p remoteAddress"
    and "MultiAddrToI2PAddr fns remoteAddress = Inr dest"
    and "ctx PreDial = Some ce"
  shows "Dial fns i2p ctx remoteAddress peerID =
           (Returned None (Some (Decorate (CtxErr ce) ''context cancelled before dial attempt'')),
            [EvCtxErr PreDial (Some ce)])
         \<and> is_cancellation (Decorate (CtxErr ce) ''context cancelled before dial attempt'')
         \<and> (\<forall>sid d. EvDialI2P sid d \<notin> set (snd (Dial fns i2p ctx remoteAddress peerID)))"
  using assms by (simp add: Dial_def emit_def)

theorem Dial_cancelled_before_dial_witness:
  "Dial (fake_fns None)
     (fake_transport ''localdest'' (Some (fake_upgrader (Inr (Some (CapableConn 31))))) None)
     (cancelled_from PreDial) remote ''peer'' =
   (Returned None (Some (Decorate (CtxErr Canceled) ''context cancelled before dial attempt'')),
    [EvCtxErr PreDial (Some Canceled)])"
proof -
  let ?t = "fake_transport ''localdest'' (Some (fake_upgrader (Inr (Some (CapableConn 31))))) None"
  have a: "CanDial ?t remote" by (simp add: remote_def CanDial_garlic64)
  have b: "MultiAddrToI2PAddr (fake_fns None) remote = Inr ''remotedest''"
    by (simp add: fake_defs)
  have c: "cancelled_from PreDial PreDial = Some Canceled" by (simp add: fake_defs)
  show ?thesis
    using Dial_cancelled_before_dial [where ctx = "cancelled_from PreDial", OF a b c] by simp
qed

section \<open>Dial and the release of resources\<close>

text \<open>
  Every error return of \<^verbatim>\<open>Dial\<close> after the raw dial returned a connection, other than the
  return at line 194, has closed the connection exactly once and has released the scope, if
  one was opened, exactly once. A successful return has closed and released nothing.
\<close>

lemma Dial_error_releases_once:
  assumes "Dial fns i2p ctx remoteAddress peerID = (Returned conn (Some e), evs)"
    and "EvDialI2P sid d \<in> set evs"
    and "DialI2P (outboundSession i2p) d = Inr (Some c)"
    and "e \<noteq> Errorf ''upgrader returned nil connection without error''"
  shows "close_count c evs = 1"
    and "ResourceManager i2p = Some rm \<Longrightarrow>
         EvOpenConnection DirOutbound False remoteAddress \<in> set evs \<Longrightarrow>
         OpenConnection rm DirOutbound False remoteAddress = Inr (Some s) \<Longrightarrow>
         done_count s evs = 1"
    and "ResourceManager i2p = None \<Longrightarrow> done_count s evs = 0"
  using assms
  by (auto simp: Dial_defs close_count_def done_count_def split: if_splits sum.splits option.splits)

lemma Dial_success_keeps_resources:
  assumes "Dial fns i2p ctx remoteAddress peerID = (Returned (Some uc) err, evs)"
  shows "err = None" and "close_count c evs = 0" and "done_count s evs = 0"
  using assms
  by (auto simp: Dial_defs close_count_def done_count_def split: if_splits sum.splits option.splits)

text \<open>
  Claim C2 fails at the return of line 194. The raw dial returns \<open>SAMConn 11\<close>, the resource
  manager opens the scope \<open>ConnScope 41\<close>, and the upgrader returns a nil connection with a
  nil error: \<^verbatim>\<open>Dial\<close> returns an error and has released the scope once, but it has not
  closed the connection, which every other error return after the raw dial does.
\<close>

theorem Dial_nil_upgrade_leaks_connection:
  "Dial (fake_fns None)
     (fake_transport ''localdest'' (Some (fake_upgrader (Inr None)))
        (Some (fake_rcmgr (Inr (Some (ConnScope 41))))))
     live remote ''peer'' =
   (Returned None (Some (Errorf ''upgrader returned nil connection without error'')),
    [EvCtxErr PreDial None, EvDialI2P ''out'' ''remotedest'', EvCtxErr PostDial None,
     EvCtxErr PreUpgrade None, EvOpenConnection DirOutbound False [(P_GARLIC64, ''remotedest'')],
     EvUpgrade (Connection (SAMConn 11) [(P_GARLIC64, ''localdest'')] [(P_GARLIC64, ''remotedest'')])
       DirOutbound ''peer'' (Some (ConnScope 41)),
     EvScopeDone (ConnScope 41)]) \<and>
   close_count (SAMConn 11)
     (snd (Dial (fake_fns None)
       (fake_transport ''localdest'' (Some (fake_upgrader (Inr None)))
          (Some (fake_rcmgr (Inr (Some (ConnScope 41))))))
       live remote ''peer'')) = 0 \<and>
   done_count (ConnScope 41)
     (snd (Dial (fake_fns None)
       (fake_transport ''localdest'' (Some (fake_upgrader (Inr None)))
          (Some (fake_rcmgr (Inr (Some (ConnScope 41))))))
       live remote ''peer'')) = 1"
  by (simp add: Dial_defs fake_defs CanDial_garlic64 close_count_def done_count_def)

section \<open>Listen\<close>

text \<open>
  Claim C6 does not hold as stated. The raw listen on the inbound session returns
  \<open>StreamListener 21\<close> and \<^verbatim>\<open>NewTransportListener\<close> returns an error: \<^verbatim>\<open>Listen\<close> returns the
  decorated error and its only effect is the raw listen; the raw listener is not closed.
\<close>

theorem Listen_wrap_failure_counterexample:
  "session_Listen (inboundSession
      (fake_transport [] (Some (fake_upgrader (Inr (Some (CapableConn 31))))) None))
     = Inr (StreamListener 21) \<and>
   Listen (fake_fns (Some (Cause ''malformed address'')))
     (fake_transport [] (Some (fake_upgrader (Inr (Some (CapableConn 31))))) None)
     [(P_GARLIC64, ''localdest'')] =
   (Returned None
      (Some (Decorate (Cause ''malformed address'') ''Failed to initialize transport listener'')),
    [EvSessionListen ''in'']) \<and>
   listener_close_count (StreamListener 21) [EvSessionListen ''in''] = 0"
  by (simp add: Listen_def NewTransportListener_def emit_def fake_defs listener_close_count_def)

text \<open>
  Claim C6, as amended: on each failure path \<^verbatim>\<open>Listen\<close> returns no listener and the
  decorated error, and its only effect is the raw listen on the inbound session. When the raw
  listen fails no listener was obtained; when the wrapping fails after the raw listen
  succeeded, the raw listener is left open. \<^verbatim>\<open>Listen\<close> closes no raw listener on any path.
\<close>

theorem Listen_failure_closes_nothing:
  "(session_Listen (inboundSession i2p) = Inl e \<longrightarrow>
      Listen fns i2p a =
        (Returned None (Some (Decorate e ''Unable to call listen on SAM session'')),
         [EvSessionListen (session_ID (inboundSession i2p))])) \<and>
   (session_Listen (inboundSession i2p) = Inr streamListener \<and>
    NewTransportListener_error fns streamListener = Some e \<longrightarrow>
      Listen fns i2p a =
        (Returned None (Some (Decorate e ''Failed to initialize transport listener'')),
         [EvSessionListen (session_ID (inboundSession i2p))])) \<and>
   listener_close_count l (snd (Listen fns i2p a)) = 0"
  by (auto simp: Listen_def NewTransportListener_def emit_def listener_close_count_def
        split: sum.splits option.splits)

theorem Listen_failure_closes_nothing_witness:
  "Listen (fake_fns (Some (Cause ''malformed address'')))
     (fake_transport [] (Some (fake_upgrader (Inr (Some (CapableConn 31))))) None) remote =
   (Returned None
      (Some (Decorate (Cause ''malformed address'') ''Failed to initialize transport listener'')),
    [EvSessionListen ''in''])"
proof -
  let ?t = "fake_transport [] (Some (fake_upgrader (Inr (Some (CapableConn 31))))) None"
  have t: "session_Listen (inboundSession ?t) = Inr (StreamListener 21)"
      "session_ID (inboundSession ?t) = ''in''"
    by (simp_all add: fake_transport_def fake_session_def)
  have w: "NewTransportListener_error (fake_fns (Some (Cause ''malformed address''))) l
             = Some (Cause ''malformed address'')" for l
    by (simp add: fake_fns_def)
  from Listen_failure_closes_nothing
         [where ?i2p = ?t and fns = "fake_fns (Some (Cause ''malformed address''))"
            and streamListener = "StreamListener 21" and e = "Cause ''malformed address''"
            and a = remote]
  show ?thesis using t w by simp
qed

text \<open>
  Claim C7: \<^verbatim>\<open>Listen\<close> does not depend on its address argument. For any two arguments, on
  the same transport and the same collaborators, it gives the same result and the same
  effects; the first effect is the raw listen on the inbound session and no other listen
  follows.
\<close>

theorem Listen_ignores_address:
  "Listen fns i2p addr1 = Listen fns i2p addr2 \<and>
   (\<exists>rest. snd (Listen fns i2p addr1) = EvSessionListen (session_ID (inboundSession i2p)) # rest
      \<and> (\<forall>sid. EvSessionListen sid \<notin> set rest))"
  by (auto simp: Listen_def emit_def split: sum.splits option.splits)

section \<open>CanDial and Protocols\<close>

text \<open>
  Claim C4: \<^verbatim>\<open>CanDial\<close> is true exactly for the addresses made of one component whose
  protocol tag is garlic64 or garlic32. It is false for every other address, such as a plain
  TCP/IP address. It is a function of the address alone and has no effects.
\<close>

theorem CanDial_iff_overlay_tag:
  "(CanDial i2p addr \<longleftrightarrow> (\<exists>tag v. addr = [(tag, v)] \<and> (tag = P_GARLIC64 \<or> tag = P_GARLIC32)))
   \<and> \<not> CanDial i2p [(P_IP4, ip), (P_TCP, port)]
   \<and> \<not> CanDial i2p [(P_TCP, port)]"
  by (auto simp: CanDial_protocols ma_Protocols_def
        P_IP4_def P_TCP_def P_GARLIC64_def P_GARLIC32_def)

theorem CanDial_iff_overlay_tag_witness:
  "CanDial (fake_transport ''localdest'' None None) [(P_GARLIC64, ''dest'')] \<and>
   CanDial (fake_transport ''localdest'' None None) [(P_GARLIC32, ''dest'')] \<and>
   \<not> CanDial (fake_transport ''localdest'' None None) [(P_IP4, ''127.0.0.1''), (P_TCP, ''4001'')]"
  using CanDial_iff_overlay_tag [of "fake_transport ''localdest'' None None" "[(P_GARLIC64, ''dest'')]"]
        CanDial_iff_overlay_tag [of "fake_transport ''localdest'' None None" "[(P_GARLIC32, ''dest'')]"]
        CanDial_iff_overlay_tag [of "fake_transport ''localdest'' None None" "[]" "''127.0.0.1''" "''4001''"]
  by simp

text \<open>
  Claim C9: \<^verbatim>\<open>Protocols\<close> is the list of garlic64, garlic32 and TCP. \<^verbatim>\<open>CanDial\<close> rejects
  every address that has a TCP component, so the tags of the addresses that \<^verbatim>\<open>CanDial\<close>
  accepts are a strict subset of the tags that \<^verbatim>\<open>Protocols\<close> advertises.
\<close>

theorem Protocols_strict_superset:
  "Protocols i2p = [P_GARLIC64, P_GARLIC32, P_TCP]
   \<and> (\<forall>addr. P_TCP \<in> set (ma_Protocols addr) \<longrightarrow> \<not> CanDial i2p addr)
   \<and> {t. \<exists>addr. CanDial i2p addr \<and> t \<in> set (ma_Protocols addr)} \<subset> set (Protocols i2p)"
proof (intro conjI)
  show "Protocols i2p = [P_GARLIC64, P_GARLIC32, P_TCP]" by (simp add: Protocols_def)
  show "\<forall>addr. P_TCP \<in> set (ma_Protocols addr) \<longrightarrow> \<not> CanDial i2p addr"
    by (auto simp: CanDial_protocols P_TCP_def P_GARLIC64_def P_GARLIC32_def)
  have "P_TCP \<notin> {P_GARLIC64, P_GARLIC32}" by (simp add: P_TCP_def P_GARLIC64_def P_GARLIC32_def)
  then show "{t. \<exists>addr. CanDial i2p addr \<and> t \<in> set (ma_Protocols addr)} \<subset> set (Protocols i2p)"
    unfolding accepted_tags_eq by (auto simp: Protocols_def)
qed

theorem Protocols_strict_superset_witness:
  "P_TCP \<in> set (ma_Protocols [(P_IP4, ''127.0.0.1''), (P_TCP, ''4001'')])
   \<and> \<not> CanDial (fake_transport ''localdest'' None None) [(P_IP4, ''127.0.0.1''), (P_TCP, ''4001'')]
   \<and> P_TCP \<in> set (Protocols (fake_transport ''localdest'' None None))"
  using Protocols_strict_superset [of "fake_transport ''localdest'' None None"]
  by (simp add: ma_Protocols_def)

section \<open>Construction\<close>

text \<open>
  Claim C5: whenever \<^verbatim>\<open>I2PTransportBuilder\<close> succeeds, whatever the keys, the outbound-port
  argument and the seed, it has made three calls on the session provider: the primary
  session, the inbound sub-session without ports, hence on the default port, and the outbound
  sub-session with from-port 1 and to-port 0. The transport it builds holds exactly these
  sessions, and the two sub-sessions are bound to different protocol and port pairs.
\<close>

theorem I2PTransportBuilder_ports_distinct:
  assumes "I2PTransportBuilder fns samClient i2pKeys outboundPort rngSeed = ((b, a, None), calls)"
  shows "\<exists>suffix prim inb outb.
           calls = [CallNewPrimarySession (''primarySession-'' @ suffix) i2pKeys Options_Default,
                    CallNewStreamSubSession (''inboundSession-'' @ suffix),
                    CallNewStreamSubSessionWithPorts (''outboundSession-'' @ suffix) ''1'' ''0''] \<and>
           NewPrimarySession samClient (''primarySession-'' @ suffix) i2pKeys Options_Default = Inr prim \<and>
           NewStreamSubSession prim (''inboundSession-'' @ suffix) = Inr inb \<and>
           NewStreamSubSessionWithPorts prim (''outboundSession-'' @ suffix) ''1'' ''0'' = Inr outb \<and>
           b = Some (\<lambda>upg rcmgr.
                 (Some \<lparr>Upgrader = upg, ResourceManager = rcmgr, sam = samClient,
                        i2PKeys = i2pKeys, primarySession = prim,
                        outboundSession = outb, inboundSession = inb\<rparr>, None)) \<and>
           subsession_binding (calls ! 1) = Some (''STREAM'', default_port) \<and>
           subsession_binding (calls ! 2) = Some (''STREAM'', ''1'') \<and>
           subsession_binding (calls ! 1) \<noteq> subsession_binding (calls ! 2)"
  using assms
  by (auto simp: I2PTransportBuilder_def Let_def default_port_def split: sum.splits)

theorem I2PTransportBuilder_ports_distinct_witness:
  "subsession_binding
     (snd (I2PTransportBuilder (fake_fns None) fake_sam (I2PKeys ''pub'' ''priv'') ''23459'' 2345) ! 1)
   \<noteq> subsession_binding
     (snd (I2PTransportBuilder (fake_fns None) fake_sam (I2PKeys ''pub'' ''priv'') ''23459'' 2345) ! 2)"
  using I2PTransportBuilder_ports_distinct [OF builder_eval]
  by (auto simp: builder_eval)

text \<open>
  Claim C10: the outbound-port argument of \<^verbatim>\<open>I2PTransportBuilder\<close> has no effect. With the
  other inputs equal, any two values of it give the same calls on the session provider and
  the same results, and a sub-session created with ports always has from-port 1 and
  to-port 0.
\<close>

theorem I2PTransportBuilder_ignores_outboundPort:
  "I2PTransportBuilder fns samClient i2pKeys port1 rngSeed =
     I2PTransportBuilder fns samClient i2pKeys port2 rngSeed \<and>
   (\<forall>name from to.
      CallNewStreamSubSessionWithPorts name from to
        \<in> set (snd (I2PTransportBuilder fns samClient i2pKeys port1 rngSeed))
      \<longrightarrow> from = ''1'' \<and> to = ''0'')"
  by (auto simp: I2PTransportBuilder_def Let_def split: sum.splits)

theorem I2PTransportBuilder_ignores_outboundPort_witness:
  "I2PTransportBuilder (fake_fns None) fake_sam (I2PKeys ''pub'' ''priv'') ''23459'' 2345 =
     I2PTransportBuilder (fake_fns None) fake_sam (I2PKeys ''pub'' ''priv'') ''45793'' 2345 \<and>
   CallNewStreamSubSessionWithPorts ''outboundSession-7'' ''1'' ''0''
     \<in> set (snd (I2PTransportBuilder (fake_fns None) fake_sam (I2PKeys ''pub'' ''priv'') ''23459'' 2345))"
proof -
  note ignored = I2PTransportBuilder_ignores_outboundPort
          [of "fake_fns None" fake_sam "I2PKeys ''pub'' ''priv''" "''23459''" 2345 "''45793''"]
  from ignored show ?thesis
    by (simp add: builder_eval)
qed

section \<open>The address translator\<close>

text \<open>
  Claim C3: for every valid full-form destination string \<open>d\<close>, converting \<open>d\<close> to a generic
  address succeeds and converting that address back yields \<open>d\<close> unchanged.
\<close>

theorem translate_round_trip:
  assumes "valid_destination alphabet min_len d"
  shows "\<exists>a. toGenericAddress alphabet min_len d = Inr a \<and> toDestinationString a = Inr d"
  using assms by (simp add: toGenericAddress_def toDestinationString_def)

theorem translate_round_trip_witness:
  "valid_destination ''ABCDEFGHIJKLMNOPQRSTUVWXYZabcdefghijklmnopqrstuvwxyz0123456789-~='' 8 ''Zm9vYmFy'' \<and>
   toGenericAddress ''ABCDEFGHIJKLMNOPQRSTUVWXYZabcdefghijklmnopqrstuvwxyz0123456789-~='' 8 ''Zm9vYmFy''
     = Inr [(P_GARLIC64, ''Zm9vYmFy'')] \<and>
   toDestinationString [(P_GARLIC64, ''Zm9vYmFy'')] = Inr ''Zm9vYmFy''"
proof -
  have v: "valid_destination ''ABCDEFGHIJKLMNOPQRSTUVWXYZabcdefghijklmnopqrstuvwxyz0123456789-~='' 8 ''Zm9vYmFy''"
    by (simp add: valid_destination_def)
  from translate_round_trip [OF v] v show ?thesis
    by (auto simp: toGenericAddress_def)
qed

end
